theory Spec2Isabelle
  imports Complex_Main "HOL-Library.FSet" "HOL-Library.Finite_Map" "HOL-Library.Sublist"
begin

section \<open>Price estimation skill: behaviour states (behaviours.py)\<close>

text \<open>
  The round classes that behaviours.py imports from
  \<^verbatim>\<open>price_estimation_abci.models.rounds\<close> and binds to behaviour states;
  \<^verbatim>\<open>PeriodState\<close>, imported from the same module, is not a round.
\<close>

datatype models_rounds =
    CollectObservationRound
  | CollectSignatureRound
  | DeploySafeRound
  | EstimateConsensusRound
  | FinalizationRound
  | RegistrationRound
  | TxHashRound

text \<open>The nine behaviour state classes of behaviours.py.\<close>

datatype BehaviourState =
    InitialDelayState
  | RegistrationBehaviour
  | DeploySafeBehaviour
  | ObserveBehaviour
  | EstimateBehaviour
  | TransactionHashBehaviour
  | SignatureBehaviour
  | FinalizeBehaviour
  | EndBehaviour

text \<open>
  The class attribute \<^verbatim>\<open>matching_round\<close> as each class body declares it.
  \<^verbatim>\<open>InitialDelayState\<close> and \<^verbatim>\<open>EndBehaviour\<close> declare \<^verbatim>\<open>state_id\<close> only:
  their bodies assign no \<^verbatim>\<open>matching_round\<close>, which is \<open>None\<close> here.
\<close>

fun matching_round :: "BehaviourState \<Rightarrow> models_rounds option" where
  "matching_round InitialDelayState = None"
| "matching_round RegistrationBehaviour = Some RegistrationRound"
| "matching_round DeploySafeBehaviour = Some DeploySafeRound"
| "matching_round ObserveBehaviour = Some CollectObservationRound"
| "matching_round EstimateBehaviour = Some EstimateConsensusRound"
| "matching_round TransactionHashBehaviour = Some TxHashRound"
| "matching_round SignatureBehaviour = Some CollectSignatureRound"
| "matching_round FinalizeBehaviour = Some FinalizationRound"
| "matching_round EndBehaviour = None"

text \<open>\<^verbatim>\<open>PriceEstimationConsensusBehaviour.all_ordered_states\<close>, in source order.\<close>

definition all_ordered_states :: "BehaviourState list" where
  "all_ordered_states =
    [InitialDelayState, RegistrationBehaviour, DeploySafeBehaviour, ObserveBehaviour,
     EstimateBehaviour, TransactionHashBehaviour, SignatureBehaviour, FinalizeBehaviour,
     EndBehaviour]"

subsection \<open>The coroutines \<^verbatim>\<open>async_act\<close> as sequences of engine calls\<close>

text \<open>The payload classes that the behaviours construct and submit.\<close>

datatype PayloadClass =
    RegistrationPayload
  | DeploySafePayload
  | ObservationPayload
  | EstimatePayload
  | TransactionHashPayload
  | SignaturePayload
  | FinalizationTxPayload

text \<open>
  What a behaviour asks of the engine and of its context, one constructor per
  method called in behaviours.py. A generator body is the list of these calls in
  program order; \<^verbatim>\<open>yield from g()\<close> splices the calls of \<open>g\<close> in place. A run that an
  exception cuts short has performed a prefix of the list.
\<close>

datatype call =
    Sleep
  | SendA2aTransaction PayloadClass
  | WaitUntilRoundEnd
  | GetContractApiResponse string
  | SendRawTransaction
  | SendSigningRequest
  | WaitForMessage
  | GetPrice
  | Aggregate
  | LoggerInfo
  | Yield

text \<open>\<^verbatim>\<open>InitialDelayState.async_act\<close>\<close>

definition InitialDelayState_async_act :: "call list" where
  "InitialDelayState_async_act = [Sleep]"

text \<open>\<^verbatim>\<open>RegistrationBehaviour.async_act\<close>\<close>

definition RegistrationBehaviour_async_act :: "call list" where
  "RegistrationBehaviour_async_act = [SendA2aTransaction RegistrationPayload, WaitUntilRoundEnd]"

text \<open>\<^verbatim>\<open>DeploySafeBehaviour\<close>: the deployer branch is taken when the agent's address is
  the period state's \<^verbatim>\<open>safe_sender_address\<close> (\<open>designated\<close>).\<close>

definition DeploySafeBehaviour_not_deployer_act :: "call list" where
  "DeploySafeBehaviour_not_deployer_act = [LoggerInfo]"

definition DeploySafeBehaviour_send_deploy_transaction :: "call list" where
  "DeploySafeBehaviour_send_deploy_transaction =
    [GetContractApiResponse ''get_deploy_transaction'', SendRawTransaction, LoggerInfo]"

definition DeploySafeBehaviour_deployer_act :: "call list" where
  "DeploySafeBehaviour_deployer_act =
    [LoggerInfo] @ DeploySafeBehaviour_send_deploy_transaction
      @ [SendA2aTransaction DeploySafePayload]"

definition DeploySafeBehaviour_async_act :: "bool \<Rightarrow> call list" where
  "DeploySafeBehaviour_async_act designated =
    (if \<not> designated then DeploySafeBehaviour_not_deployer_act
     else DeploySafeBehaviour_deployer_act)
    @ [WaitUntilRoundEnd, LoggerInfo]"

text \<open>\<^verbatim>\<open>ObserveBehaviour.async_act\<close>\<close>

definition ObserveBehaviour_async_act :: "call list" where
  "ObserveBehaviour_async_act =
    [GetPrice, LoggerInfo, SendA2aTransaction ObservationPayload, WaitUntilRoundEnd]"

text \<open>\<^verbatim>\<open>EstimateBehaviour.async_act\<close>\<close>

definition EstimateBehaviour_async_act :: "call list" where
  "EstimateBehaviour_async_act =
    [LoggerInfo, Aggregate, LoggerInfo, SendA2aTransaction EstimatePayload, WaitUntilRoundEnd]"

text \<open>\<^verbatim>\<open>TransactionHashBehaviour\<close>\<close>

definition TransactionHashBehaviour_not_sender_act :: "call list" where
  "TransactionHashBehaviour_not_sender_act = [LoggerInfo]"

definition TransactionHashBehaviour_sender_act :: "call list" where
  "TransactionHashBehaviour_sender_act =
    [LoggerInfo, LoggerInfo, GetContractApiResponse ''get_raw_safe_transaction_hash'',
     LoggerInfo, SendA2aTransaction TransactionHashPayload]"

definition TransactionHashBehaviour_async_act :: "bool \<Rightarrow> call list" where
  "TransactionHashBehaviour_async_act designated =
    (if \<not> designated then TransactionHashBehaviour_not_sender_act
     else TransactionHashBehaviour_sender_act)
    @ [WaitUntilRoundEnd]"

text \<open>\<^verbatim>\<open>SignatureBehaviour\<close>\<close>

definition SignatureBehaviour_get_safe_tx_signature :: "call list" where
  "SignatureBehaviour_get_safe_tx_signature = [SendSigningRequest, WaitForMessage, LoggerInfo]"

definition SignatureBehaviour_async_act :: "call list" where
  "SignatureBehaviour_async_act =
    SignatureBehaviour_get_safe_tx_signature
      @ [SendA2aTransaction SignaturePayload, WaitUntilRoundEnd]"

text \<open>\<^verbatim>\<open>FinalizeBehaviour\<close>\<close>

definition FinalizeBehaviour_not_sender_act :: "call list" where
  "FinalizeBehaviour_not_sender_act = [LoggerInfo]"

definition FinalizeBehaviour_send_safe_transaction :: "call list" where
  "FinalizeBehaviour_send_safe_transaction =
    [GetContractApiResponse ''get_raw_safe_transaction'', SendRawTransaction, LoggerInfo]"

definition FinalizeBehaviour_sender_act :: "call list" where
  "FinalizeBehaviour_sender_act =
    [LoggerInfo] @ FinalizeBehaviour_send_safe_transaction
      @ [LoggerInfo, LoggerInfo, SendA2aTransaction FinalizationTxPayload]"

definition FinalizeBehaviour_async_act :: "bool \<Rightarrow> call list" where
  "FinalizeBehaviour_async_act designated =
    (if \<not> designated then FinalizeBehaviour_not_sender_act
     else FinalizeBehaviour_sender_act)
    @ [WaitUntilRoundEnd]"

text \<open>\<^verbatim>\<open>EndBehaviour.async_act\<close>: two log lines and the dummy \<^verbatim>\<open>yield\<close>.\<close>

definition EndBehaviour_async_act :: "call list" where
  "EndBehaviour_async_act = [LoggerInfo, LoggerInfo, Yield]"

text \<open>Dispatch on the behaviour state class: one execution of its \<^verbatim>\<open>async_act\<close>.\<close>

fun async_act :: "BehaviourState \<Rightarrow> bool \<Rightarrow> call list" where
  "async_act InitialDelayState designated = InitialDelayState_async_act"
| "async_act RegistrationBehaviour designated = RegistrationBehaviour_async_act"
| "async_act DeploySafeBehaviour designated = DeploySafeBehaviour_async_act designated"
| "async_act ObserveBehaviour designated = ObserveBehaviour_async_act"
| "async_act EstimateBehaviour designated = EstimateBehaviour_async_act"
| "async_act TransactionHashBehaviour designated = TransactionHashBehaviour_async_act designated"
| "async_act SignatureBehaviour designated = SignatureBehaviour_async_act"
| "async_act FinalizeBehaviour designated = FinalizeBehaviour_async_act designated"
| "async_act EndBehaviour designated = EndBehaviour_async_act"

text \<open>How many payload transactions a sequence of calls submits.\<close>

fun is_send :: "call \<Rightarrow> bool" where
  "is_send (SendA2aTransaction p) = True"
| "is_send c = False"

definition sends :: "call list \<Rightarrow> nat" where
  "sends cs = length (filter is_send cs)"

text \<open>The calls from the first \<^verbatim>\<open>wait_until_round_end\<close> on (empty when there is none).\<close>

definition from_round_end :: "call list \<Rightarrow> call list" where
  "from_round_end cs = dropWhile (\<lambda>c. c \<noteq> WaitUntilRoundEnd) cs"

section \<open>Liquidity provision skill: rounds.py\<close>

subsection \<open>Events, strategies, payloads\<close>

text \<open>\<^verbatim>\<open>class Event(Enum)\<close>\<close>

datatype Event = DONE | EXIT | ROUND_TIMEOUT | NO_MAJORITY | WAIT | NO_ALLOWANCE

text \<open>
  Modelled from the spec: the enumeration \<^verbatim>\<open>StrategyType\<close> and the class
  \<^verbatim>\<open>StrategyEvaluationPayload\<close> are declared in liquidity_provision/payloads.py, which
  is not among the sources. rounds.py names the member \<^verbatim>\<open>StrategyType.GO\<close>, the payload
  attribute \<^verbatim>\<open>strategy\<close> and the key \<^verbatim>\<open>"action"\<close> of the strategy dictionary;
  \<open>OTHER_STRATEGY\<close> stands for every member that is not \<open>GO\<close>. A payload is the
  spec's (sender address, value) pair; its transaction type tag is the constant
  \<^verbatim>\<open>allowed_tx_type\<close> of the round and is left out.
\<close>

datatype StrategyType = GO | OTHER_STRATEGY

text \<open>Modelled from the spec: a value stored in a strategy dictionary; only the
  value under \<^verbatim>\<open>"action"\<close> is read by rounds.py.\<close>

datatype dict_value = Strategy StrategyType | Text string | Number int

type_synonym strategy_dict = "(string, dict_value) fmap"

text \<open>Modelled from the spec: a payload, its sender address and its value, the
  attribute \<^verbatim>\<open>strategy\<close>.\<close>

record StrategyEvaluationPayload =
  sender :: string
  strategy :: strategy_dict

text \<open>
  A round's collection is a Python dictionary from participant address to payload:
  the list of its items in insertion order, with at most one item per address.
\<close>

type_synonym collection = "(string \<times> StrategyEvaluationPayload) list"

text \<open>
  What the modelled code can raise: \<^verbatim>\<open>AEAEnforceError\<close> from \<^verbatim>\<open>enforce\<close>, \<^verbatim>\<open>KeyError\<close>
  from a dictionary subscription, and, for the parts modelled from the spec, the
  spec's \<^verbatim>\<open>StateNotReady\<close> of a read accessor and the absence of any vote.
\<close>

datatype error =
    AEAEnforceError string
  | StateNotReady string
  | KeyError string
  | NoVotes

subsection \<open>PeriodState\<close>

text \<open>
  The attributes \<^verbatim>\<open>_participants\<close>, \<^verbatim>\<open>_participant_to_strategy\<close> and
  \<^verbatim>\<open>_most_voted_strategy\<close> that \<^verbatim>\<open>PeriodState.__init__\<close> assigns; each is
  \<^verbatim>\<open>Optional\<close> and \<open>None\<close> by default.
\<close>

record PeriodState =
  attr_participants :: "string fset option"
  attr_participant_to_strategy :: "collection option"
  attr_most_voted_strategy :: "strategy_dict option"

text \<open>\<^verbatim>\<open>PeriodState.__init__\<close>\<close>

definition PeriodState_init ::
  "string fset option \<Rightarrow> collection option \<Rightarrow> strategy_dict option \<Rightarrow> PeriodState" where
  "PeriodState_init participants participant_to_strategy most_voted_strategy =
    \<lparr> attr_participants = participants,
      attr_participant_to_strategy = participant_to_strategy,
      attr_most_voted_strategy = most_voted_strategy \<rparr>"

text \<open>
  \<^verbatim>\<open>aea.exceptions.enforce(condition, message)\<close> raises \<^verbatim>\<open>AEAEnforceError(message)\<close>
  when the condition is false. The property \<^verbatim>\<open>PeriodState.most_voted_strategy\<close>:
\<close>

definition most_voted_strategy :: "PeriodState \<Rightarrow> error + strategy_dict" where
  "most_voted_strategy s =
    (case attr_most_voted_strategy s of
       None \<Rightarrow> Inl (AEAEnforceError '''most_voted_strategy' field is None'')
     | Some d \<Rightarrow> Inr d)"

text \<open>
  Modelled from the spec: the properties \<^verbatim>\<open>participants\<close> and \<^verbatim>\<open>nb_participants\<close>
  and the method \<^verbatim>\<open>update\<close> belong to \<^verbatim>\<open>BasePeriodState\<close> in
  abstract_round_abci/base.py, which is not among the sources. The spec: read accessors
  raise rather than return a sentinel when the data is not yet populated;
  \<open>nb_participants\<close> is the size of the participant set; \<open>update(**fields)\<close> returns a
  new PeriodState with the given fields replaced and the rest left as they are.
\<close>

definition participants :: "PeriodState \<Rightarrow> error + string fset" where
  "participants s =
    (case attr_participants s of
       None \<Rightarrow> Inl (StateNotReady ''participants'')
     | Some P \<Rightarrow> Inr P)"

text \<open>Modelled from the spec: \<open>nb_participants\<close> is the size of the participant set.\<close>

definition nb_participants :: "PeriodState \<Rightarrow> error + nat" where
  "nb_participants s =
    (case participants s of Inl e \<Rightarrow> Inl e | Inr P \<Rightarrow> Inr (fcard P))"

text \<open>Modelled from the spec: one keyword argument of \<open>update\<close>, the field it names
  and the value it gives; \<open>update\<close> replaces the fields its arguments name, one after
  the other, and leaves the rest.\<close>

datatype field =
    Participants "string fset option"
  | ParticipantToStrategy "collection option"
  | MostVotedStrategy "strategy_dict option"

fun update_field :: "PeriodState \<Rightarrow> field \<Rightarrow> PeriodState" where
  "update_field s (Participants v) = s\<lparr>attr_participants := v\<rparr>"
| "update_field s (ParticipantToStrategy v) = s\<lparr>attr_participant_to_strategy := v\<rparr>"
| "update_field s (MostVotedStrategy v) = s\<lparr>attr_most_voted_strategy := v\<rparr>"

definition update :: "PeriodState \<Rightarrow> field list \<Rightarrow> PeriodState" where
  "update s kwargs = foldl update_field s kwargs"

text \<open>\<^verbatim>\<open>PeriodState.reset\<close>: \<^verbatim>\<open>PeriodState(self.participants)\<close>\<close>

definition reset :: "PeriodState \<Rightarrow> error + PeriodState" where
  "reset s =
    (case participants s of
       Inl e \<Rightarrow> Inl e
     | Inr P \<Rightarrow> Inr (PeriodState_init (Some P) None None))"

text \<open>The name of the field a keyword argument assigns, and whether a state holds
  the value the argument gives.\<close>

fun field_name :: "field \<Rightarrow> string" where
  "field_name (Participants v) = ''participants''"
| "field_name (ParticipantToStrategy v) = ''participant_to_strategy''"
| "field_name (MostVotedStrategy v) = ''most_voted_strategy''"

fun holds :: "PeriodState \<Rightarrow> field \<Rightarrow> bool" where
  "holds s (Participants v) = (attr_participants s = v)"
| "holds s (ParticipantToStrategy v) = (attr_participant_to_strategy s = v)"
| "holds s (MostVotedStrategy v) = (attr_most_voted_strategy s = v)"

subsection \<open>The threshold round\<close>

text \<open>
  A round instance: the period state it is bound to (\<^verbatim>\<open>LiquidityProvisionAbstractRound.period_state\<close>)
  and the payloads collected so far.
\<close>

record StrategyEvaluationRound =
  period_state :: PeriodState
  collection :: collection

text \<open>
  Modelled from the spec: \<^verbatim>\<open>CollectSameUntilThresholdRound\<close> (its \<^verbatim>\<open>threshold_reached\<close>,
  \<^verbatim>\<open>most_voted_payload\<close> and \<^verbatim>\<open>is_majority_possible\<close>) and the consensus parameter
  \<^verbatim>\<open>two_thirds_threshold\<close> are not among the sources. The spec: the round keeps a count
  per distinct payload value; the quorum is floor(2/3 * nb_participants) + 1;
  \<open>threshold_reached\<close> is true when the largest per-value count is at least the quorum;
  \<open>most_voted_payload\<close> is the value with that count; \<open>is_majority_possible\<close> is false
  exactly when the participants who have not yet submitted plus the leading count are
  fewer than the quorum. With \<^verbatim>\<open>payload_attribute = "strategy"\<close> the value of a payload
  is its \<open>strategy\<close>.
\<close>

definition two_thirds_threshold :: "nat \<Rightarrow> nat" where
  "two_thirds_threshold n = 2 * n div 3 + 1"

text \<open>Modelled from the spec: the count kept per distinct payload value, and the
  largest of these counts (0 for an empty collection).\<close>

definition count_votes :: "strategy_dict \<Rightarrow> collection \<Rightarrow> nat" where
  "count_votes v coll = length (filter (\<lambda>(a, p). strategy p = v) coll)"

definition largest_count :: "collection \<Rightarrow> nat" where
  "largest_count coll = foldr (\<lambda>(a, p) m. max (count_votes (strategy p) coll) m) coll 0"

text \<open>Modelled from the spec: \<open>threshold_reached\<close>, true when the largest per-value
  count is at least the quorum of \<open>nb_participants\<close>.\<close>

definition threshold_reached :: "StrategyEvaluationRound \<Rightarrow> error + bool" where
  "threshold_reached r =
    (case nb_participants (period_state r) of
       Inl e \<Rightarrow> Inl e
     | Inr n \<Rightarrow> Inr (two_thirds_threshold n \<le> largest_count (collection r)))"

text \<open>Modelled from the spec: \<open>most_voted_payload\<close>, the value with the largest
  count (the first such in the collection; none when nobody has voted).\<close>

definition most_voted_payload :: "StrategyEvaluationRound \<Rightarrow> error + strategy_dict" where
  "most_voted_payload r =
    (case find (\<lambda>(a, p). count_votes (strategy p) (collection r) = largest_count (collection r))
            (collection r) of
       None \<Rightarrow> Inl NoVotes
     | Some (a, p) \<Rightarrow> Inr (strategy p))"

text \<open>Modelled from the spec: \<open>is_majority_possible\<close>, false exactly when the
  participants that have not yet submitted plus the leading count are below the quorum.\<close>

definition is_majority_possible :: "collection \<Rightarrow> nat \<Rightarrow> bool" where
  "is_majority_possible coll n =
    (\<not> (int n - int (length coll) + int (largest_count coll) < int (two_thirds_threshold n)))"

text \<open>Subscription \<^verbatim>\<open>d[key]\<close> of a dictionary raises \<^verbatim>\<open>KeyError\<close> on a missing key.\<close>

definition getitem :: "strategy_dict \<Rightarrow> string \<Rightarrow> error + dict_value" where
  "getitem d k = (case fmlookup d k of None \<Rightarrow> Inl (KeyError k) | Some v \<Rightarrow> Inr v)"

text \<open>\<^verbatim>\<open>LiquidityProvisionAbstractRound._return_no_majority_event\<close>\<close>

definition return_no_majority_event :: "StrategyEvaluationRound \<Rightarrow> error + PeriodState \<times> Event" where
  "return_no_majority_event r =
    (case reset (period_state r) of
       Inl e \<Rightarrow> Inl e
     | Inr s \<Rightarrow> Inr (s, NO_MAJORITY))"

text \<open>
  \<^verbatim>\<open>StrategyEvaluationRound.end_block\<close>. The new state is built by \<open>update\<close> from
  \<^verbatim>\<open>self.period_state\<close>, which stays the round's state; the event is then decided by
  \<^verbatim>\<open>self.period_state.most_voted_strategy["action"]\<close>, read from the round's state.
\<close>

definition end_block :: "StrategyEvaluationRound \<Rightarrow> error + (PeriodState \<times> Event) option" where
  "end_block r =
    (case threshold_reached r of
       Inl e \<Rightarrow> Inl e
     | Inr reached \<Rightarrow>
        if reached then
          (case most_voted_payload r of
             Inl e \<Rightarrow> Inl e
           | Inr mv \<Rightarrow>
              let state = update (period_state r)
                    [ParticipantToStrategy (Some (collection r)), MostVotedStrategy (Some mv)]
              in (case most_voted_strategy (period_state r) of
                    Inl e \<Rightarrow> Inl e
                  | Inr d \<Rightarrow>
                     (case getitem d ''action'' of
                        Inl e \<Rightarrow> Inl e
                      | Inr a \<Rightarrow>
                         let event = (if a = Strategy GO then DONE else WAIT)
                         in Inr (Some (state, event)))))
        else
          (case nb_participants (period_state r) of
             Inl e \<Rightarrow> Inl e
           | Inr n \<Rightarrow>
              if \<not> is_majority_possible (collection r) n then
                (case return_no_majority_event r of
                   Inl e \<Rightarrow> Inl e
                 | Inr res \<Rightarrow> Inr (Some res))
              else Inr None))"

text \<open>
  One block tick on a round: \<open>end_block\<close> assigns no attribute of the round, so the
  round after the call is the round before it, paired with what the call returned.
\<close>

definition tick ::
  "StrategyEvaluationRound \<Rightarrow> StrategyEvaluationRound \<times> (error + (PeriodState \<times> Event) option)" where
  "tick r = (r, end_block r)"

text \<open>
  \<open>k\<close> successive block ticks on a round: the round afterwards and what each call
  of \<open>end_block\<close> returned, in order.
\<close>

fun ticks :: "nat \<Rightarrow> StrategyEvaluationRound \<Rightarrow>
    StrategyEvaluationRound \<times> (error + (PeriodState \<times> Event) option) list" where
  "ticks 0 r = (r, [])"
| "ticks (Suc k) r =
    (let (r', res) = tick r; (r'', rs) = ticks k r' in (r'', res # rs))"

subsection \<open>LiquidityProvisionAbciApp\<close>

text \<open>
  The round classes that occur in the transition function: those imported from
  \<^verbatim>\<open>price_estimation_abci.rounds\<close>, then those rounds.py declares.
\<close>

datatype RoundType =
    ConsensusReachedRound
  | DeploySafeRound
  | RandomnessRound
  | RegistrationRound
  | ValidateSafeRound
  | SelectKeeperMainRound
  | SelectKeeperDeployRound
  | SelectKeeperSwapRound
  | SelectKeeperAddAllowanceRound
  | SelectKeeperAddLiquidityRound
  | SelectKeeperRemoveLiquidityRound
  | SelectKeeperRemoveAllowanceRound
  | SelectKeeperSwapBackRound
  | StrategyEvaluationRound
  | WaitRound
  | SwapRound
  | ValidateSwapRound
  | AllowanceCheckRound
  | AddAllowanceRound
  | ValidateAddAllowanceRound
  | AddLiquidityRound
  | ValidateAddLiquidityRound
  | RemoveLiquidityRound
  | ValidateRemoveLiquidityRound
  | RemoveAllowanceRound
  | ValidateRemoveAllowanceRound
  | SwapBackRound
  | ValidateSwapBackRound

text \<open>\<^verbatim>\<open>LiquidityProvisionAbciApp.initial_round_cls\<close>\<close>

definition initial_round_cls :: RoundType where
  "initial_round_cls = RegistrationRound"

text \<open>
  \<^verbatim>\<open>LiquidityProvisionAbciApp.transition_function\<close>: the dictionary literal, one item
  per source round, each with its inner dictionary from event to next round, in
  source order.
\<close>

definition transition_function :: "(RoundType \<times> (Event \<times> RoundType) list) list" where
  "transition_function =
    [(RegistrationRound,
        [(DONE, RandomnessRound)]),
     (RandomnessRound,
        [(DONE, SelectKeeperMainRound),
         (ROUND_TIMEOUT, RegistrationRound),
         (NO_MAJORITY, RegistrationRound)]),
     (SelectKeeperMainRound,
        [(DONE, DeploySafeRound),
         (ROUND_TIMEOUT, RegistrationRound),
         (NO_MAJORITY, RegistrationRound)]),
     (DeploySafeRound,
        [(DONE, ValidateSafeRound),
         (EXIT, SelectKeeperDeployRound)]),
     (SelectKeeperDeployRound,
        [(DONE, DeploySafeRound),
         (ROUND_TIMEOUT, RegistrationRound),
         (NO_MAJORITY, RegistrationRound)]),
     (ValidateSafeRound,
        [(DONE, StrategyEvaluationRound),
         (ROUND_TIMEOUT, RegistrationRound),
         (NO_MAJORITY, RegistrationRound)]),
     (StrategyEvaluationRound,
        [(DONE, SwapRound),
         (WAIT, WaitRound),
         (ROUND_TIMEOUT, RegistrationRound),
         (NO_MAJORITY, RegistrationRound)]),
     (WaitRound,
        [(DONE, StrategyEvaluationRound),
         (ROUND_TIMEOUT, RegistrationRound),
         (NO_MAJORITY, RegistrationRound)]),
     (SwapRound,
        [(DONE, ValidateSwapRound),
         (ROUND_TIMEOUT, RegistrationRound),
         (NO_MAJORITY, RegistrationRound),
         (EXIT, SelectKeeperSwapRound)]),
     (SelectKeeperSwapRound,
        [(DONE, SwapRound),
         (ROUND_TIMEOUT, RegistrationRound),
         (NO_MAJORITY, RegistrationRound)]),
     (ValidateSwapRound,
        [(DONE, AllowanceCheckRound),
         (ROUND_TIMEOUT, RegistrationRound),
         (NO_MAJORITY, RegistrationRound)]),
     (AllowanceCheckRound,
        [(DONE, AddLiquidityRound),
         (NO_ALLOWANCE, AddAllowanceRound),
         (ROUND_TIMEOUT, RegistrationRound),
         (NO_MAJORITY, RegistrationRound)]),
     (AddAllowanceRound,
        [(DONE, ValidateAddAllowanceRound),
         (ROUND_TIMEOUT, RegistrationRound),
         (NO_MAJORITY, RegistrationRound),
         (EXIT, SelectKeeperAddAllowanceRound)]),
     (SelectKeeperAddAllowanceRound,
        [(DONE, AddAllowanceRound),
         (ROUND_TIMEOUT, RegistrationRound),
         (NO_MAJORITY, RegistrationRound)]),
     (ValidateAddAllowanceRound,
        [(DONE, AddLiquidityRound),
         (ROUND_TIMEOUT, RegistrationRound),
         (NO_MAJORITY, RegistrationRound)]),
     (AddLiquidityRound,
        [(DONE, ValidateAddLiquidityRound),
         (ROUND_TIMEOUT, RegistrationRound),
         (NO_MAJORITY, RegistrationRound),
         (EXIT, SelectKeeperAddLiquidityRound)]),
     (SelectKeeperAddLiquidityRound,
        [(DONE, AddLiquidityRound),
         (ROUND_TIMEOUT, RegistrationRound),
         (NO_MAJORITY, RegistrationRound)]),
     (ValidateAddLiquidityRound,
        [(DONE, RemoveLiquidityRound),
         (ROUND_TIMEOUT, RegistrationRound),
         (NO_MAJORITY, RegistrationRound)]),
     (RemoveLiquidityRound,
        [(DONE, ValidateRemoveLiquidityRound),
         (ROUND_TIMEOUT, RegistrationRound),
         (NO_MAJORITY, RegistrationRound),
         (EXIT, SelectKeeperRemoveLiquidityRound)]),
     (SelectKeeperRemoveLiquidityRound,
        [(DONE, RemoveLiquidityRound),
         (ROUND_TIMEOUT, RegistrationRound),
         (NO_MAJORITY, RegistrationRound)]),
     (ValidateRemoveLiquidityRound,
        [(DONE, RemoveAllowanceRound),
         (ROUND_TIMEOUT, RegistrationRound),
         (NO_MAJORITY, RegistrationRound)]),
     (RemoveAllowanceRound,
        [(DONE, ValidateRemoveAllowanceRound),
         (ROUND_TIMEOUT, RegistrationRound),
         (NO_MAJORITY, RegistrationRound),
         (EXIT, SelectKeeperRemoveAllowanceRound)]),
     (SelectKeeperRemoveAllowanceRound,
        [(DONE, SwapRound),
         (ROUND_TIMEOUT, RegistrationRound),
         (NO_MAJORITY, RegistrationRound)]),
     (ValidateRemoveAllowanceRound,
        [(DONE, SwapBackRound),
         (ROUND_TIMEOUT, RegistrationRound),
         (NO_MAJORITY, RegistrationRound)]),
     (SwapBackRound,
        [(DONE, ValidateSwapBackRound),
         (ROUND_TIMEOUT, RegistrationRound),
         (NO_MAJORITY, RegistrationRound),
         (EXIT, SelectKeeperSwapBackRound)]),
     (SelectKeeperSwapBackRound,
        [(DONE, SwapBackRound),
         (ROUND_TIMEOUT, RegistrationRound),
         (NO_MAJORITY, RegistrationRound)]),
     (ValidateSwapBackRound,
        [(DONE, ConsensusReachedRound),
         (ROUND_TIMEOUT, RegistrationRound),
         (NO_MAJORITY, RegistrationRound)])]"

text \<open>The rounds with an entry of their own, the rounds some entry leads to, and the
  transitions declared for a round (none when it has no entry).\<close>

definition sources :: "RoundType list" where
  "sources = map fst transition_function"

definition targets :: "RoundType list" where
  "targets = concat (map (\<lambda>(r, ts). map snd ts) transition_function)"

definition outgoing :: "RoundType \<Rightarrow> (Event \<times> RoundType) list" where
  "outgoing r = (case map_of transition_function r of None \<Rightarrow> [] | Some ts \<Rightarrow> ts)"

subsection \<open>Example rounds\<close>

text \<open>
  Two strategy dictionaries, \<^verbatim>\<open>{"action": StrategyType.GO}\<close> and one whose action is
  not \<open>GO\<close>; four participants; the collection item of a participant that submitted
  a strategy; the state with the participants \<open>P\<close> and nothing else; and a round over the four participants whose period state holds \<open>stored\<close>
  as \<^verbatim>\<open>_most_voted_strategy\<close>.
\<close>

definition go_strategy :: strategy_dict where
  "go_strategy = fmupd ''action'' (Strategy GO) fmempty"

definition wait_strategy :: strategy_dict where
  "wait_strategy = fmupd ''action'' (Strategy OTHER_STRATEGY) fmempty"

definition four_participants :: "string fset" where
  "four_participants = {|''agent_0'', ''agent_1'', ''agent_2'', ''agent_3''|}"

definition reset_state :: "string fset \<Rightarrow> PeriodState" where
  "reset_state P = PeriodState_init (Some P) None None"

definition vote :: "string \<Rightarrow> strategy_dict \<Rightarrow> string \<times> StrategyEvaluationPayload" where
  "vote a d = (a, \<lparr>sender = a, strategy = d\<rparr>)"

definition round_of :: "strategy_dict option \<Rightarrow> collection \<Rightarrow> StrategyEvaluationRound" where
  "round_of stored coll =
    \<lparr> period_state = (reset_state four_participants)\<lparr>attr_most_voted_strategy := stored\<rparr>,
      collection = coll \<rparr>"

section \<open>Behaviour states and their rounds\<close>

text \<open>
  C8, as the claim states it, fails: \<^verbatim>\<open>InitialDelayState\<close> is in the list
  \<^verbatim>\<open>all_ordered_states\<close> and declares no \<^verbatim>\<open>matching_round\<close>.
\<close>

theorem initial_delay_state_has_no_matching_round:
  "InitialDelayState \<in> set all_ordered_states \<and> matching_round InitialDelayState = None"
  by (simp add: all_ordered_states_def)

text \<open>
  C8, amended: every behaviour state in \<^verbatim>\<open>all_ordered_states\<close> other than
  \<^verbatim>\<open>InitialDelayState\<close> and \<^verbatim>\<open>EndBehaviour\<close> declares a \<^verbatim>\<open>matching_round\<close>, no two
  behaviour states of the list that declare one share it, and no behaviour state is
  listed twice.
\<close>

theorem matching_round_one_to_one:
  "(\<forall>b \<in> set all_ordered_states.
      b \<noteq> InitialDelayState \<and> b \<noteq> EndBehaviour \<longrightarrow> matching_round b \<noteq> None)
   \<and> (\<forall>b \<in> set all_ordered_states. \<forall>c \<in> set all_ordered_states.
        matching_round b \<noteq> None \<and> matching_round b = matching_round c \<longrightarrow> b = c)
   \<and> distinct all_ordered_states"
  by (simp add: all_ordered_states_def)

theorem matching_round_one_to_one_witness:
  "matching_round ObserveBehaviour = Some CollectObservationRound
   \<and> matching_round ObserveBehaviour \<noteq> None
   \<and> matching_round ObserveBehaviour \<noteq> matching_round SignatureBehaviour"
proof -
  have o: "ObserveBehaviour \<in> set all_ordered_states"
    and g: "SignatureBehaviour \<in> set all_ordered_states"
    by (simp_all add: all_ordered_states_def)
  have "ObserveBehaviour \<noteq> InitialDelayState \<and> ObserveBehaviour \<noteq> EndBehaviour" by simp
  with o matching_round_one_to_one have some: "matching_round ObserveBehaviour \<noteq> None"
    by blast
  have "ObserveBehaviour \<noteq> SignatureBehaviour" by simp
  with o g some matching_round_one_to_one
  have "matching_round ObserveBehaviour \<noteq> matching_round SignatureBehaviour" by blast
  with some show ?thesis by simp
qed

section \<open>Payload transactions in one execution of \<open>async_act\<close>\<close>

lemma sends_prefix: "prefix t cs \<Longrightarrow> sends t \<le> sends cs"
  by (auto simp: sends_def prefix_def)

lemma sends_suffix: "suffix t cs \<Longrightarrow> sends t \<le> sends cs"
  by (auto simp: sends_def suffix_def)

lemmas async_act_defs =
  InitialDelayState_async_act_def RegistrationBehaviour_async_act_def
  DeploySafeBehaviour_async_act_def DeploySafeBehaviour_not_deployer_act_def
  DeploySafeBehaviour_deployer_act_def DeploySafeBehaviour_send_deploy_transaction_def
  ObserveBehaviour_async_act_def EstimateBehaviour_async_act_def
  TransactionHashBehaviour_async_act_def TransactionHashBehaviour_not_sender_act_def
  TransactionHashBehaviour_sender_act_def SignatureBehaviour_async_act_def
  SignatureBehaviour_get_safe_tx_signature_def FinalizeBehaviour_async_act_def
  FinalizeBehaviour_not_sender_act_def FinalizeBehaviour_sender_act_def
  FinalizeBehaviour_send_safe_transaction_def EndBehaviour_async_act_def

lemma sends_async_act: "sends (async_act b designated) \<le> 1"
  by (cases b; cases designated) (simp_all add: sends_def async_act_defs)

lemma sends_from_round_end: "sends (from_round_end (async_act b designated)) = 0"
  by (cases b; cases designated) (simp_all add: sends_def from_round_end_def async_act_defs)

lemma from_round_end_suffix:
  "cs = pre @ WaitUntilRoundEnd # post \<Longrightarrow> suffix post (from_round_end cs)"
proof (induction pre arbitrary: cs)
  case Nil
  then show ?case by (simp add: from_round_end_def suffix_def)
next
  case (Cons a pre)
  then show ?case
    by (cases "a = WaitUntilRoundEnd") (auto simp: from_round_end_def suffix_def)
qed

text \<open>
  For every behaviour state in \<^verbatim>\<open>all_ordered_states\<close> and either outcome of the
  designated-sender test, one execution of \<^verbatim>\<open>async_act\<close>, run to its end or cut short
  at any call, calls \<^verbatim>\<open>send_a2a_transaction\<close> at most once, and calls it no more once
  it has reached \<^verbatim>\<open>wait_until_round_end\<close>. This is a fact about one execution: how
  often a behaviour is executed while one round instance lasts is decided by
  \<^verbatim>\<open>AbstractRoundBehaviour\<close>, which behaviours.py imports and does not define.
\<close>

lemma async_act_sends_at_most_once:
  "\<forall>b \<in> set all_ordered_states. \<forall>designated.
     (\<forall>t. prefix t (async_act b designated) \<longrightarrow> sends t \<le> 1)
     \<and> (\<forall>pre post. async_act b designated = pre @ WaitUntilRoundEnd # post \<longrightarrow> sends post = 0)"
proof (intro ballI allI conjI impI)
  fix b designated t
  assume "prefix t (async_act b designated)"
  then have "sends t \<le> sends (async_act b designated)" by (rule sends_prefix)
  with sends_async_act [of b designated] show "sends t \<le> 1" by linarith
next
  fix b designated pre post
  assume "async_act b designated = pre @ WaitUntilRoundEnd # post"
  then have "suffix post (from_round_end (async_act b designated))"
    by (rule from_round_end_suffix)
  then have "sends post \<le> sends (from_round_end (async_act b designated))"
    by (rule sends_suffix)
  then show "sends post = 0" by (simp add: sends_from_round_end)
qed

lemma async_act_sends_at_most_once_example:
  "FinalizeBehaviour \<in> set all_ordered_states
   \<and> async_act FinalizeBehaviour True = FinalizeBehaviour_sender_act @ [WaitUntilRoundEnd]
   \<and> sends FinalizeBehaviour_sender_act = 1
   \<and> sends (async_act FinalizeBehaviour True) \<le> 1
   \<and> sends [] = 0"
proof -
  have m: "FinalizeBehaviour \<in> set all_ordered_states" by (simp add: all_ordered_states_def)
  have p: "prefix (async_act FinalizeBehaviour True) (async_act FinalizeBehaviour True)"
    by simp
  have e: "async_act FinalizeBehaviour True = FinalizeBehaviour_sender_act @ WaitUntilRoundEnd # []"
    by (simp add: FinalizeBehaviour_async_act_def)
  have one: "sends FinalizeBehaviour_sender_act = 1"
    by (simp add: sends_def FinalizeBehaviour_sender_act_def
        FinalizeBehaviour_send_safe_transaction_def)
  from async_act_sends_at_most_once m p
  have "sends (async_act FinalizeBehaviour True) \<le> 1" by blast
  moreover from async_act_sends_at_most_once m e have "sends [] = 0" by blast
  ultimately show ?thesis using m e one by simp
qed

section \<open>The transition function of LiquidityProvisionAbciApp\<close>

lemma transition_function_keys_distinct: "distinct sources"
  by code_simp

text \<open>
  C7: \<^verbatim>\<open>ConsensusReachedRound\<close> is the unique terminal state of the transition
  function: it is the target of a transition and has no entry of its own, every other
  target has an entry with at least one outgoing transition, no round of the table
  other than \<^verbatim>\<open>ConsensusReachedRound\<close> is without outgoing transitions, and the
  declared initial round is \<^verbatim>\<open>RegistrationRound\<close>.
\<close>

theorem consensus_reached_unique_terminal:
  "ConsensusReachedRound \<in> set targets
   \<and> ConsensusReachedRound \<notin> set sources
   \<and> outgoing ConsensusReachedRound = []
   \<and> (\<forall>r \<in> set targets. r \<noteq> ConsensusReachedRound \<longrightarrow> r \<in> set sources \<and> outgoing r \<noteq> [])
   \<and> (\<forall>r \<in> set sources \<union> set targets. outgoing r = [] \<longrightarrow> r = ConsensusReachedRound)
   \<and> initial_round_cls = RegistrationRound"
  by code_simp

theorem consensus_reached_unique_terminal_witness:
  "SwapRound \<in> set targets \<and> SwapRound \<in> set sources \<and> outgoing SwapRound \<noteq> []"
proof -
  have t: "SwapRound \<in> set targets" by code_simp
  have "SwapRound \<noteq> ConsensusReachedRound" by simp
  with t consensus_reached_unique_terminal show ?thesis by blast
qed

text \<open>
  C10: every \<^verbatim>\<open>ROUND_TIMEOUT\<close> transition and every \<^verbatim>\<open>NO_MAJORITY\<close> transition of the
  transition function leads to \<^verbatim>\<open>RegistrationRound\<close>, and the only transition that
  \<^verbatim>\<open>RegistrationRound\<close> declares is the one on \<^verbatim>\<open>DONE\<close>.
\<close>

theorem fallbacks_rewind_to_registration:
  "(\<forall>(r, ts) \<in> set transition_function. \<forall>(e, t) \<in> set ts.
      e = ROUND_TIMEOUT \<or> e = NO_MAJORITY \<longrightarrow> t = RegistrationRound)
   \<and> map fst (outgoing RegistrationRound) = [DONE]"
  by code_simp

theorem fallbacks_rewind_to_registration_witness:
  "(StrategyEvaluationRound,
      [(DONE, SwapRound), (WAIT, WaitRound),
       (ROUND_TIMEOUT, RegistrationRound), (NO_MAJORITY, RegistrationRound)])
     \<in> set transition_function
   \<and> (NO_MAJORITY, RegistrationRound)
     \<in> set [(DONE, SwapRound), (WAIT, WaitRound),
            (ROUND_TIMEOUT, RegistrationRound), (NO_MAJORITY, RegistrationRound)]"
proof -
  have m: "(StrategyEvaluationRound,
      [(DONE, SwapRound), (WAIT, WaitRound),
       (ROUND_TIMEOUT, RegistrationRound), (NO_MAJORITY, RegistrationRound)])
     \<in> set transition_function"
    by (simp add: transition_function_def)
  have "\<forall>(e, t) \<in> set [(DONE, SwapRound), (WAIT, WaitRound),
       (ROUND_TIMEOUT, RegistrationRound), (NO_MAJORITY, RegistrationRound)].
      e = ROUND_TIMEOUT \<or> e = NO_MAJORITY \<longrightarrow> t = RegistrationRound"
    using fallbacks_rewind_to_registration m by blast
  with m show ?thesis by simp
qed

section \<open>The period state\<close>

text \<open>
  C4: reading \<^verbatim>\<open>most_voted_strategy\<close> from a PeriodState in which it is not set
  fails with the \<^verbatim>\<open>AEAEnforceError\<close> of \<^verbatim>\<open>enforce\<close> (the spec's StateNotReady failure)
  and returns no value at all, also for a state fresh from the constructor's default;
  once \<open>update\<close> has set it, the accessor returns exactly the stored value.
\<close>

theorem most_voted_strategy_not_ready:
  "(attr_most_voted_strategy s = None \<longrightarrow>
      most_voted_strategy s = Inl (AEAEnforceError '''most_voted_strategy' field is None'')
      \<and> (\<forall>d. most_voted_strategy s \<noteq> Inr d))
   \<and> most_voted_strategy (PeriodState_init P c None)
       = Inl (AEAEnforceError '''most_voted_strategy' field is None'')
   \<and> most_voted_strategy (update s [MostVotedStrategy (Some d)]) = Inr d"
  by (simp add: most_voted_strategy_def update_def PeriodState_init_def)

theorem most_voted_strategy_not_ready_witness:
  "attr_most_voted_strategy (reset_state four_participants) = None
   \<and> most_voted_strategy (reset_state four_participants)
       = Inl (AEAEnforceError '''most_voted_strategy' field is None'')
   \<and> most_voted_strategy (update (reset_state four_participants)
         [MostVotedStrategy (Some go_strategy)]) = Inr go_strategy"
proof -
  have "attr_most_voted_strategy (reset_state four_participants) = None"
    by (simp add: reset_state_def PeriodState_init_def)
  with most_voted_strategy_not_ready [of "reset_state four_participants" _ _ go_strategy]
  show ?thesis by blast
qed

lemma update_single: "update s [f] = update_field s f"
  by (simp add: update_def)

lemma update_two:
  "update s [ParticipantToStrategy c, MostVotedStrategy m] =
     \<lparr> attr_participants = attr_participants s, attr_participant_to_strategy = c,
       attr_most_voted_strategy = m \<rparr>"
  by (simp add: update_def)

text \<open>
  C5, as the claim states it for every PeriodState, fails: on the PeriodState that
  the constructor builds from its defaults, with no participants set, \<open>reset\<close>
  returns no PeriodState; reading \<open>participants\<close> fails first.
\<close>

theorem reset_without_participants:
  "reset (PeriodState_init None None None) = Inl (StateNotReady ''participants'')"
  by (simp add: reset_def participants_def PeriodState_init_def)

text \<open>
  C5, amended: for every PeriodState, updating one field and then another field
  leaves the state holding both given values, with every field that neither update
  names unchanged; and for every PeriodState whose participants are set, \<open>reset\<close>
  returns a PeriodState that keeps the participants and has
  \<open>participant_to_strategy\<close> and \<open>most_voted_strategy\<close> unset.
\<close>

theorem update_then_update_and_reset:
  "(\<forall>f g. field_name f \<noteq> field_name g \<longrightarrow>
      holds (update (update s [f]) [g]) f
      \<and> holds (update (update s [f]) [g]) g
      \<and> (\<forall>h. field_name h \<noteq> field_name f \<and> field_name h \<noteq> field_name g \<longrightarrow>
            holds (update (update s [f]) [g]) h = holds s h))
   \<and> (\<forall>P. attr_participants s = Some P \<longrightarrow>
        reset s = Inr \<lparr> attr_participants = Some P, attr_participant_to_strategy = None,
                        attr_most_voted_strategy = None \<rparr>)"
proof (intro conjI allI impI)
  fix f g
  assume "field_name f \<noteq> field_name g"
  then show "holds (update (update s [f]) [g]) f"
    by (cases f; cases g) (simp_all add: update_single)
next
  fix f g
  show "holds (update (update s [f]) [g]) g"
    by (cases f; cases g) (simp_all add: update_single)
next
  fix f g h
  assume "field_name h \<noteq> field_name f \<and> field_name h \<noteq> field_name g"
  then show "holds (update (update s [f]) [g]) h = holds s h"
    by (cases f; cases g; cases h) (simp_all add: update_single)
next
  fix P
  assume "attr_participants s = Some P"
  then show "reset s = Inr \<lparr> attr_participants = Some P, attr_participant_to_strategy = None,
                        attr_most_voted_strategy = None \<rparr>"
    by (simp add: reset_def participants_def PeriodState_init_def)
qed

theorem update_then_update_and_reset_witness:
  "attr_participant_to_strategy
       (update (update (reset_state four_participants)
          [ParticipantToStrategy (Some [vote ''agent_0'' go_strategy])])
          [MostVotedStrategy (Some go_strategy)])
     = Some [vote ''agent_0'' go_strategy]
   \<and> attr_most_voted_strategy
       (update (update (reset_state four_participants)
          [ParticipantToStrategy (Some [vote ''agent_0'' go_strategy])])
          [MostVotedStrategy (Some go_strategy)])
     = Some go_strategy
   \<and> reset (update (update (reset_state four_participants)
          [ParticipantToStrategy (Some [vote ''agent_0'' go_strategy])])
          [MostVotedStrategy (Some go_strategy)])
     = Inr (reset_state four_participants)"
proof -
  let ?f = "ParticipantToStrategy (Some [vote ''agent_0'' go_strategy])"
  let ?g = "MostVotedStrategy (Some go_strategy)"
  let ?s = "update (update (reset_state four_participants) [?f]) [?g]"
  have n: "field_name ?f \<noteq> field_name ?g" by simp
  have p: "attr_participants ?s = Some four_participants"
    by (simp add: update_single reset_state_def PeriodState_init_def)
  from n update_then_update_and_reset [of "reset_state four_participants"]
  have "holds ?s ?f \<and> holds ?s ?g" by blast
  moreover from p update_then_update_and_reset [of ?s]
  have "reset ?s = Inr (reset_state four_participants)"
    by (simp add: reset_state_def PeriodState_init_def)
  ultimately show ?thesis by simp
qed

section \<open>The quorum\<close>

lemma two_thirds_threshold_floor: "int (two_thirds_threshold n) = \<lfloor>2 * real n / 3\<rfloor> + 1"
proof -
  have "\<lfloor>real (2 * n) / real 3\<rfloor> = int (2 * n div 3)"
    by (metis floor_divide_of_nat_eq)
  then show ?thesis by (simp add: two_thirds_threshold_def)
qed

lemma two_thirds_threshold_pos: "0 < two_thirds_threshold n"
  by (simp add: two_thirds_threshold_def)

lemma two_quorums_exceed: "n < 2 * two_thirds_threshold n"
  unfolding two_thirds_threshold_def by presburger

lemma count_votes_two:
  "v \<noteq> w \<Longrightarrow> count_votes v coll + count_votes w coll \<le> length coll"
  unfolding count_votes_def
  by (induction coll) auto

lemma distinct_senders_le:
  assumes "distinct (map fst coll)" "fset_of_list (map fst coll) |\<subseteq>| P"
  shows "length coll \<le> fcard P"
proof -
  have "card (set (map fst coll)) = length (map fst coll)"
    using assms(1) by (rule distinct_card)
  then have "length coll = fcard (fset_of_list (map fst coll))"
    by (simp add: fcard.rep_eq fset_of_list.rep_eq)
  also have "\<dots> \<le> fcard P" using assms(2) by (rule fcard_mono)
  finally show ?thesis .
qed

lemma fcard_four: "fcard four_participants = 4"
  by (simp add: four_participants_def fcard_finsert_if)

lemma go_neq_wait: "go_strategy \<noteq> wait_strategy"
proof
  assume "go_strategy = wait_strategy"
  then have "fmlookup go_strategy ''action'' = fmlookup wait_strategy ''action''" by simp
  then show False by (simp add: go_strategy_def wait_strategy_def)
qed

text \<open>
  C3: for every participant set \<open>P\<close> of size N (N >= 1 included), the quorum is
  floor(2N/3) + 1; two disjoint subsets of \<open>P\<close> never both have quorum size; and in
  a collection with one payload per sender, all senders participants, two different
  values never both have a quorum of votes.
\<close>

theorem quorum_two_thirds_disjoint:
  "int (two_thirds_threshold (fcard P)) = \<lfloor>2 * real (fcard P) / 3\<rfloor> + 1
   \<and> (\<forall>A B. A |\<subseteq>| P \<and> B |\<subseteq>| P \<and> A |\<inter>| B = {||} \<longrightarrow>
         \<not> (two_thirds_threshold (fcard P) \<le> fcard A
            \<and> two_thirds_threshold (fcard P) \<le> fcard B))
   \<and> (\<forall>coll v w. distinct (map fst coll) \<and> fset_of_list (map fst coll) |\<subseteq>| P \<and> v \<noteq> w \<longrightarrow>
         \<not> (two_thirds_threshold (fcard P) \<le> count_votes v coll
            \<and> two_thirds_threshold (fcard P) \<le> count_votes w coll))"
proof (intro conjI allI impI)
  show "int (two_thirds_threshold (fcard P)) = \<lfloor>2 * real (fcard P) / 3\<rfloor> + 1"
    by (rule two_thirds_threshold_floor)
next
  fix A B
  assume h: "A |\<subseteq>| P \<and> B |\<subseteq>| P \<and> A |\<inter>| B = {||}"
  then have "fcard (A |\<union>| B) = fcard A + fcard B"
    by (metis fcard_funion_disjoint)
  moreover from h have "fcard (A |\<union>| B) \<le> fcard P"
    by (intro fcard_mono) auto
  ultimately have "fcard A + fcard B \<le> fcard P" by simp
  with two_quorums_exceed [of "fcard P"]
  show "\<not> (two_thirds_threshold (fcard P) \<le> fcard A
          \<and> two_thirds_threshold (fcard P) \<le> fcard B)"
    by linarith
next
  fix coll :: collection and v w :: strategy_dict
  assume h: "distinct (map fst coll) \<and> fset_of_list (map fst coll) |\<subseteq>| P \<and> v \<noteq> w"
  then have "length coll \<le> fcard P" by (simp add: distinct_senders_le)
  moreover from h have "count_votes v coll + count_votes w coll \<le> length coll"
    by (simp add: count_votes_two)
  ultimately show "\<not> (two_thirds_threshold (fcard P) \<le> count_votes v coll
            \<and> two_thirds_threshold (fcard P) \<le> count_votes w coll)"
    using two_quorums_exceed [of "fcard P"] by linarith
qed

theorem quorum_two_thirds_disjoint_witness:
  "two_thirds_threshold (fcard four_participants) = 3
   \<and> {|''agent_0'', ''agent_1'', ''agent_2''|} |\<subseteq>| four_participants
   \<and> {|''agent_3''|} |\<subseteq>| four_participants
   \<and> {|''agent_0'', ''agent_1'', ''agent_2''|} |\<inter>| {|''agent_3''|} = {||}
   \<and> two_thirds_threshold (fcard four_participants)
        \<le> fcard {|''agent_0'', ''agent_1'', ''agent_2''|}
   \<and> \<not> two_thirds_threshold (fcard four_participants) \<le> fcard {|''agent_3''|}
   \<and> two_thirds_threshold (fcard four_participants)
        \<le> count_votes go_strategy
            [vote ''agent_0'' go_strategy, vote ''agent_1'' go_strategy,
             vote ''agent_2'' go_strategy, vote ''agent_3'' wait_strategy]
   \<and> \<not> two_thirds_threshold (fcard four_participants)
        \<le> count_votes wait_strategy
            [vote ''agent_0'' go_strategy, vote ''agent_1'' go_strategy,
             vote ''agent_2'' go_strategy, vote ''agent_3'' wait_strategy]"
proof -
  let ?A = "{|''agent_0'', ''agent_1'', ''agent_2''|}" and ?B = "{|''agent_3''|}"
  let ?c = "[vote ''agent_0'' go_strategy, vote ''agent_1'' go_strategy,
             vote ''agent_2'' go_strategy, vote ''agent_3'' wait_strategy]"
  have q: "two_thirds_threshold (fcard four_participants) = 3"
    by (simp add: fcard_four two_thirds_threshold_def)
  have a: "?A |\<subseteq>| four_participants" and b: "?B |\<subseteq>| four_participants"
    and d: "?A |\<inter>| ?B = {||}"
    by (auto simp: four_participants_def)
  have ca: "two_thirds_threshold (fcard four_participants) \<le> fcard ?A"
    by (simp add: q fcard_finsert_if)
  from a b d quorum_two_thirds_disjoint [of four_participants]
  have "\<not> (two_thirds_threshold (fcard four_participants) \<le> fcard ?A
          \<and> two_thirds_threshold (fcard four_participants) \<le> fcard ?B)"
    by blast
  with ca have nb: "\<not> two_thirds_threshold (fcard four_participants) \<le> fcard ?B" by blast
  have dc: "distinct (map fst ?c)" by (simp add: vote_def)
  have sc: "fset_of_list (map fst ?c) |\<subseteq>| four_participants"
    by (simp add: vote_def four_participants_def)
  note ne = go_neq_wait
  have cg: "two_thirds_threshold (fcard four_participants) \<le> count_votes go_strategy ?c"
    using ne by (simp add: q count_votes_def vote_def)
  from dc sc ne quorum_two_thirds_disjoint [of four_participants]
  have "\<not> (two_thirds_threshold (fcard four_participants) \<le> count_votes go_strategy ?c
          \<and> two_thirds_threshold (fcard four_participants) \<le> count_votes wait_strategy ?c)"
    by blast
  with cg have "\<not> two_thirds_threshold (fcard four_participants) \<le> count_votes wait_strategy ?c"
    by blast
  with q a b d ca nb cg show ?thesis by blast
qed

section \<open>The end of a block in the strategy evaluation round\<close>

lemma foldr_max_ge:
  "x \<in> set xs \<Longrightarrow> g x \<le> foldr (\<lambda>y m. max (g y) m) xs (0::nat)"
  by (induction xs) auto

lemma foldr_max_attained:
  "xs \<noteq> [] \<Longrightarrow> \<exists>x \<in> set xs. foldr (\<lambda>y m. max (g y) m) xs (0::nat) = g x"
proof (induction xs)
  case Nil
  then show ?case by simp
next
  case (Cons a xs)
  show ?case
  proof (cases "xs = []")
    case True
    then show ?thesis by simp
  next
    case False
    with Cons.IH obtain x where "x \<in> set xs" "foldr (\<lambda>y m. max (g y) m) xs 0 = g x"
      by blast
    then show ?thesis by (cases "g a \<le> g x") (auto simp: max_def)
  qed
qed

lemma largest_count_alt:
  "largest_count coll = foldr (\<lambda>y m. max (count_votes (strategy (snd y)) coll) m) coll 0"
  by (simp add: largest_count_def split_def)

lemma count_votes_le_largest: "count_votes v coll \<le> largest_count coll"
proof (cases "\<exists>x \<in> set coll. strategy (snd x) = v")
  case True
  then obtain x where "x \<in> set coll" "strategy (snd x) = v" by blast
  then show ?thesis
    unfolding largest_count_alt
    using foldr_max_ge [of x coll "\<lambda>y. count_votes (strategy (snd y)) coll"] by simp
next
  case False
  then have "filter (\<lambda>(a, p). strategy p = v) coll = []"
    by (auto simp: filter_empty_conv)
  then show ?thesis by (simp add: count_votes_def)
qed

lemma largest_count_attained:
  "coll \<noteq> [] \<Longrightarrow> \<exists>x \<in> set coll. largest_count coll = count_votes (strategy (snd x)) coll"
  unfolding largest_count_alt
  by (rule foldr_max_attained)

lemma largest_count_empty: "largest_count [] = 0"
  by (simp add: largest_count_def)

lemma quorum_iff_largest:
  "(\<exists>v. q \<le> count_votes v coll) \<longleftrightarrow> q \<le> largest_count coll" if "0 < q"
proof
  assume "\<exists>v. q \<le> count_votes v coll"
  then show "q \<le> largest_count coll"
    using count_votes_le_largest le_trans by blast
next
  assume q: "q \<le> largest_count coll"
  with that have "coll \<noteq> []" by (auto simp: largest_count_empty)
  from largest_count_attained [OF this] obtain x :: "string \<times> StrategyEvaluationPayload"
    where "largest_count coll = count_votes (strategy (snd x)) coll" by blast
  with q have "q \<le> count_votes (strategy (snd x)) coll" by simp
  then show "\<exists>v. q \<le> count_votes v coll" by blast
qed

lemma most_voted_payload_largest:
  assumes "collection r \<noteq> []"
  shows "\<exists>mv. most_voted_payload r = Inr mv
            \<and> count_votes mv (collection r) = largest_count (collection r)"
proof -
  let ?P = "\<lambda>(a :: string, p :: StrategyEvaluationPayload).
    count_votes (strategy p) (collection r) = largest_count (collection r)"
  from largest_count_attained [OF assms] have "\<exists>x \<in> set (collection r). ?P x"
    by (simp add: split_def eq_commute)
  then obtain x where f: "find ?P (collection r) = Some x"
    by (cases "find ?P (collection r)") (auto simp: find_None_iff)
  then have "?P x" by (auto simp: find_Some_iff)
  with f show ?thesis
    by (cases x) (simp add: most_voted_payload_def)
qed

lemma threshold_reached_iff:
  assumes "nb_participants (period_state r) = Inr n"
  shows "threshold_reached r = Inr (\<exists>v. two_thirds_threshold n \<le> count_votes v (collection r))"
  using assms quorum_iff_largest [OF two_thirds_threshold_pos, of n "collection r"]
  by (simp add: threshold_reached_def)

lemma end_block_quorum:
  assumes nb: "nb_participants (period_state r) = Inr n"
    and q: "two_thirds_threshold n \<le> count_votes v (collection r)"
    and res: "end_block r = Inr res"
  shows "\<exists>mv ev. res = Some (\<lparr> attr_participants = attr_participants (period_state r),
                attr_participant_to_strategy = Some (collection r),
                attr_most_voted_strategy = Some mv \<rparr>, ev)
            \<and> most_voted_payload r = Inr mv
            \<and> two_thirds_threshold n \<le> count_votes mv (collection r)
            \<and> (length (collection r) \<le> n \<longrightarrow> mv = v)
            \<and> (ev = DONE \<or> ev = WAIT)"
proof -
  from nb q have reached: "threshold_reached r = Inr True"
    by (auto simp: threshold_reached_iff)
  from q two_thirds_threshold_pos [of n] have "collection r \<noteq> []"
    by (auto simp: count_votes_def)
  then obtain mv where mv: "most_voted_payload r = Inr mv"
    and cnt: "count_votes mv (collection r) = largest_count (collection r)"
    using most_voted_payload_largest by blast
  from q cnt count_votes_le_largest [of v "collection r"]
  have qmv: "two_thirds_threshold n \<le> count_votes mv (collection r)" by simp
  have same: "mv = v" if "length (collection r) \<le> n"
  proof (rule ccontr)
    assume "mv \<noteq> v"
    then have "count_votes mv (collection r) + count_votes v (collection r)
        \<le> length (collection r)"
      by (rule count_votes_two)
    with that q qmv two_quorums_exceed [of n] show False by linarith
  qed
  from res reached mv obtain ev where
    "res = Some (update (period_state r)
        [ParticipantToStrategy (Some (collection r)), MostVotedStrategy (Some mv)], ev)"
    "ev = DONE \<or> ev = WAIT"
    by (auto simp: end_block_def Let_def split: sum.splits if_splits)
  with mv qmv same show ?thesis by (simp add: update_two)
qed

lemma getitem_go: "getitem go_strategy ''action'' = Inr (Strategy GO)"
  by (simp add: getitem_def go_strategy_def)

lemma getitem_wait: "getitem wait_strategy ''action'' = Inr (Strategy OTHER_STRATEGY)"
  by (simp add: getitem_def wait_strategy_def)

lemmas round_of_simps =
  round_of_def reset_state_def PeriodState_init_def vote_def nb_participants_def
  participants_def fcard_four two_thirds_threshold_def threshold_reached_def
  largest_count_def count_votes_def most_voted_payload_def most_voted_strategy_def
  getitem_go getitem_wait go_neq_wait go_neq_wait [symmetric] update_def
  is_majority_possible_def return_no_majority_event_def reset_def

text \<open>
  When the threshold is reached and the period state holds no strategy yet, as on the
  first evaluation of a period, reading \<^verbatim>\<open>self.period_state.most_voted_strategy\<close>
  fails, whatever was voted.
\<close>

lemma end_block_raises_when_unset:
  assumes "nb_participants (period_state r) = Inr n"
    and "two_thirds_threshold n \<le> count_votes v (collection r)"
    and "attr_most_voted_strategy (period_state r) = None"
  shows "end_block r = Inl (AEAEnforceError '''most_voted_strategy' field is None'')"
proof -
  from assms(1,2) have reached: "threshold_reached r = Inr True"
    by (auto simp: threshold_reached_iff)
  from assms(2) two_thirds_threshold_pos [of n] have "collection r \<noteq> []"
    by (auto simp: count_votes_def)
  then obtain mv where "most_voted_payload r = Inr mv"
    using most_voted_payload_largest by blast
  with reached assms(3) show ?thesis
    by (simp add: end_block_def most_voted_strategy_def)
qed

text \<open>
  When the strategy voted and the strategy held by the period state are the same
  strategy, with an action that is not \<open>GO\<close>, the event is \<open>WAIT\<close>.
\<close>

lemma end_block_wait_event:
  "threshold_reached (round_of (Some wait_strategy)
      [vote ''agent_0'' wait_strategy, vote ''agent_1'' wait_strategy,
       vote ''agent_2'' wait_strategy]) = Inr True
   \<and> end_block (round_of (Some wait_strategy)
      [vote ''agent_0'' wait_strategy, vote ''agent_1'' wait_strategy,
       vote ''agent_2'' wait_strategy])
     = Inr (Some (\<lparr> attr_participants = Some four_participants,
           attr_participant_to_strategy =
             Some [vote ''agent_0'' wait_strategy, vote ''agent_1'' wait_strategy,
                   vote ''agent_2'' wait_strategy],
           attr_most_voted_strategy = Some wait_strategy \<rparr>, WAIT))"
  by (simp add: end_block_def round_of_simps)

text \<open>
  C1: with the threshold reached, \<open>end_block\<close> should return the new PeriodState, with
  the collection as \<open>participant_to_strategy\<close> and the most voted value as
  \<open>most_voted_strategy\<close>, together with \<open>DONE\<close>. The code does not: it decides the
  event by \<^verbatim>\<open>self.period_state.most_voted_strategy["action"]\<close>, the state before the
  update, and not by the state it has just built. With four participants of whom three
  vote the strategy \<^verbatim>\<open>{"action": StrategyType.GO}\<close>, the threshold is reached and the
  most voted payload is that strategy; on the first evaluation of the period, where the
  state holds no strategy, \<open>end_block\<close> raises instead of returning, and where the
  state holds an earlier strategy that is not \<open>GO\<close> it returns the new state with
  \<open>WAIT\<close>.
\<close>

theorem end_block_reads_state_before_update:
  "threshold_reached (round_of None
      [vote ''agent_0'' go_strategy, vote ''agent_1'' go_strategy,
       vote ''agent_2'' go_strategy]) = Inr True
   \<and> most_voted_payload (round_of None
      [vote ''agent_0'' go_strategy, vote ''agent_1'' go_strategy,
       vote ''agent_2'' go_strategy]) = Inr go_strategy
   \<and> getitem go_strategy ''action'' = Inr (Strategy GO)
   \<and> end_block (round_of None
      [vote ''agent_0'' go_strategy, vote ''agent_1'' go_strategy,
       vote ''agent_2'' go_strategy])
     = Inl (AEAEnforceError '''most_voted_strategy' field is None'')
   \<and> end_block (round_of (Some wait_strategy)
      [vote ''agent_0'' go_strategy, vote ''agent_1'' go_strategy,
       vote ''agent_2'' go_strategy])
     = Inr (Some (\<lparr> attr_participants = Some four_participants,
           attr_participant_to_strategy =
             Some [vote ''agent_0'' go_strategy, vote ''agent_1'' go_strategy,
                   vote ''agent_2'' go_strategy],
           attr_most_voted_strategy = Some go_strategy \<rparr>, WAIT))"
  by (simp add: end_block_def round_of_simps)

text \<open>
  C2: if the threshold has not been reached and the number of participants that have
  not yet submitted plus the leading count is below the quorum, \<open>end_block\<close> returns
  the event \<open>NO_MAJORITY\<close> together with the reset PeriodState: the participant set
  kept, \<open>participant_to_strategy\<close> and \<open>most_voted_strategy\<close> unset.
\<close>

theorem end_block_no_majority:
  assumes "threshold_reached r = Inr False"
    and "attr_participants (period_state r) = Some P"
    and "int (fcard P) - int (length (collection r)) + int (largest_count (collection r))
          < int (two_thirds_threshold (fcard P))"
  shows "end_block r =
    Inr (Some (\<lparr> attr_participants = Some P, attr_participant_to_strategy = None,
                 attr_most_voted_strategy = None \<rparr>, NO_MAJORITY))"
  using assms
  by (simp add: end_block_def nb_participants_def participants_def is_majority_possible_def
      return_no_majority_event_def reset_def PeriodState_init_def)

theorem end_block_no_majority_witness:
  "threshold_reached (round_of (Some wait_strategy)
      [vote ''agent_0'' go_strategy, vote ''agent_1'' go_strategy,
       vote ''agent_2'' wait_strategy, vote ''agent_3'' wait_strategy]) = Inr False
   \<and> largest_count
      [vote ''agent_0'' go_strategy, vote ''agent_1'' go_strategy,
       vote ''agent_2'' wait_strategy, vote ''agent_3'' wait_strategy] = 2
   \<and> end_block (round_of (Some wait_strategy)
      [vote ''agent_0'' go_strategy, vote ''agent_1'' go_strategy,
       vote ''agent_2'' wait_strategy, vote ''agent_3'' wait_strategy])
     = Inr (Some (\<lparr> attr_participants = Some four_participants,
           attr_participant_to_strategy = None,
           attr_most_voted_strategy = None \<rparr>, NO_MAJORITY))"
proof -
  let ?c = "[vote ''agent_0'' go_strategy, vote ''agent_1'' go_strategy,
             vote ''agent_2'' wait_strategy, vote ''agent_3'' wait_strategy]"
  let ?r = "round_of (Some wait_strategy) ?c"
  have c: "collection ?r = ?c" by (simp add: round_of_def)
  have t: "threshold_reached ?r = Inr False" by (simp add: round_of_simps)
  have p: "attr_participants (period_state ?r) = Some four_participants"
    by (simp add: round_of_simps)
  have l: "largest_count ?c = 2" by (simp add: round_of_simps)
  have "int (fcard four_participants) - int (length (collection ?r))
          + int (largest_count (collection ?r))
        < int (two_thirds_threshold (fcard four_participants))"
    by (simp only: c l) (simp add: fcard_four two_thirds_threshold_def)
  from end_block_no_majority [OF t p this] t l show ?thesis by simp
qed

text \<open>
  C6: if the threshold has not been reached and a majority is still possible,
  \<open>end_block\<close> returns \<open>None\<close>, and so does every one of any number of successive
  ticks, each of which leaves the round as it was.
\<close>

theorem end_block_not_yet:
  assumes "threshold_reached r = Inr False"
    and "attr_participants (period_state r) = Some P"
    and "is_majority_possible (collection r) (fcard P)"
  shows "end_block r = Inr None \<and> (\<forall>k. ticks k r = (r, replicate k (Inr None)))"
proof -
  from assms have e: "end_block r = Inr None"
    by (simp add: end_block_def nb_participants_def participants_def)
  have "ticks k r = (r, replicate k (Inr None))" for k
    by (induction k) (simp_all add: tick_def e)
  with e show ?thesis by simp
qed

theorem end_block_not_yet_witness:
  "threshold_reached (round_of None [vote ''agent_0'' go_strategy]) = Inr False
   \<and> is_majority_possible [vote ''agent_0'' go_strategy] (fcard four_participants)
   \<and> end_block (round_of None [vote ''agent_0'' go_strategy]) = Inr None
   \<and> ticks 3 (round_of None [vote ''agent_0'' go_strategy])
      = (round_of None [vote ''agent_0'' go_strategy], [Inr None, Inr None, Inr None])"
proof -
  let ?r = "round_of None [vote ''agent_0'' go_strategy]"
  have c: "collection ?r = [vote ''agent_0'' go_strategy]" by (simp add: round_of_def)
  have t: "threshold_reached ?r = Inr False" by (simp add: round_of_simps)
  have p: "attr_participants (period_state ?r) = Some four_participants"
    by (simp add: round_of_simps)
  have m: "is_majority_possible (collection ?r) (fcard four_participants)"
    by (simp add: round_of_simps)
  from end_block_not_yet [OF t p m]
  have "end_block ?r = Inr None" and "ticks 3 ?r = (?r, replicate 3 (Inr None))"
    by blast+
  with t m show ?thesis by (simp add: c numeral_3_eq_3)
qed

end
